theory Spec2Isabelle
  imports Complex_Main
begin

section \<open>findid: the nearest-event command of libcomcat\<close>

text \<open>
  The development follows \<^verbatim>\<open>src/libcomcat/bin/findid.py\<close>. Python floats are modelled
  as reals (the values nan and inf, which \<^verbatim>\<open>float()\<close> also accepts, are left out), the
  event time as a real number of seconds. Everything the program does beyond returning
  is written into an outcome: what it prints, what it logs, the files it writes, the
  calls of \<^verbatim>\<open>find_nearby_events\<close> it makes, and how the process ends.
\<close>

subsection \<open>Data\<close>

text \<open>CandidateEvent and RankedEvent of the data model; a ranked event is a row of the frame.\<close>

record event =
  event_id :: string
  event_time :: real
  latitude :: real
  longitude :: real
  depth :: real
  magnitude :: real
  url :: string

record ranked = event +
  distance_km :: real
  time_delta_s :: real
  azimuth_deg :: real

text \<open>The namespace returned by \<^verbatim>\<open>parser.parse_args()\<close> (\<^verbatim>\<open>get_parser\<close>, lines 59-102).\<close>

record args =
  time :: real
  lat :: real
  lon :: real
  radius :: "real option"
  window :: "real option"
  print_all :: bool
  print_url :: bool
  print_verbose :: bool
  outfile :: "string option"
  logfile :: string
  loglevel :: string

text \<open>The argument tuple of one call \<^verbatim>\<open>find_nearby_events(time, lat, lon, twindow, radius)\<close>.\<close>

record query =
  q_time :: real
  q_lat :: real
  q_lon :: real
  q_twindow :: real
  q_radius :: real

datatype exn = AttributeError | IndexError | OtherException

text \<open>
  How the process ends: \<^verbatim>\<open>sys.exit(n)\<close> or the end of \<^verbatim>\<open>main\<close> (\<open>Exit 0\<close>), or an
  exception nobody catches, for which the interpreter prints a traceback and ends with
  status 1.
\<close>

datatype status = Exit int | Uncaught exn

fun exit_code :: "status \<Rightarrow> int" where
  "exit_code (Exit n) = n"
| "exit_code (Uncaught e) = 1"

fun traceback :: "status \<Rightarrow> bool" where
  "traceback (Exit n) = False"
| "traceback (Uncaught e) = True"

datatype cell = Str string | Num real

datatype printed =
    Text string
  | Frame "ranked list"
  | Header cell
  | Field string cell
  | Cell cell

datatype fileformat = Excel | Csv

record outcome =
  stdout :: "printed list"
  logged :: "string list"
  written :: "(string \<times> fileformat \<times> ranked list) list"
  queries :: "query list"
  status :: status

subsection \<open>Constants\<close>

definition SEARCH_RADIUS :: real where
  "SEARCH_RADIUS = 100"

definition TIME_WINDOW :: real where
  "TIME_WINDOW = 16"

definition supported :: "string list" where
  "supported = [''.xlsx'', ''.csv'']"

subsection \<open>Library functions the program calls\<close>

text \<open>\<^verbatim>\<open>str.rfind\<close> for one character: the highest index holding it, or -1.\<close>

definition rfind :: "char \<Rightarrow> string \<Rightarrow> int" where
  "rfind c p =
     (case filter (\<lambda>i. p ! i = c) (rev [0..<length p]) of
        [] \<Rightarrow> - 1
      | i # _ \<Rightarrow> int i)"

text \<open>
  \<^verbatim>\<open>os.path.splitext\<close> (the POSIX one): the extension starts at the last dot of the last
  path component, and dots that lead that component do not start an extension.
\<close>

definition splitext :: "string \<Rightarrow> string \<times> string" where
  "splitext p =
     (let sepIndex = rfind (CHR ''/'') p;
          dotIndex = rfind (CHR ''.'') p
      in if dotIndex > sepIndex
            \<and> list_ex (\<lambda>i. p ! i \<noteq> CHR ''.'') [nat (sepIndex + 1)..<nat dotIndex]
         then (take (nat dotIndex) p, drop (nat dotIndex) p)
         else (p, []))"

text \<open>Decimal digits of a natural number, for \<^verbatim>\<open>'%i'\<close>.\<close>

fun str_nat :: "nat \<Rightarrow> string" where
  "str_nat n =
     (if n < 10 then [char_of (48 + n)]
      else str_nat (n div 10) @ [char_of (48 + n mod 10)])"

text \<open>
  Truth value of an optional float in a condition: \<^verbatim>\<open>None\<close> and \<^verbatim>\<open>0.0\<close> are false,
  every other float is true.
\<close>

fun truthy :: "real option \<Rightarrow> bool" where
  "truthy None = False"
| "truthy (Some x) = (x \<noteq> 0)"

text \<open>
  Attribute \<^verbatim>\<open>values\<close> of a cell. \<^verbatim>\<open>nearest = event_df.iloc[0]\<close> is the first row as a
  Series indexed by the column labels (line 173 lists them with
  \<^verbatim>\<open>nearest.index.to_list()\<close>), so \<^verbatim>\<open>nearest['id']\<close> is the cell itself, as lines 172 and
  180 use it: the event id, a Python string, where the other cells are numbers. Neither
  a string nor a float has an attribute \<^verbatim>\<open>values\<close>.
\<close>

fun values_attr :: "cell \<Rightarrow> exn + cell list" where
  "values_attr (Str s) = Inl AttributeError"
| "values_attr (Num x) = Inl AttributeError"

text \<open>
  Modelled from the spec: the column labels of the frame that \<^verbatim>\<open>find_nearby_events\<close>
  builds (that function is not under src/) are those of section 6: id, time, latitude,
  longitude, depth, magnitude, url, and the derived distance, time delta and azimuth.
  This is the row as the Series \<^verbatim>\<open>event_df.iloc[0]\<close>: labels and cells in column
  order.
\<close>

definition series :: "ranked \<Rightarrow> (string \<times> cell) list" where
  "series r =
     [(''id'', Str (event_id r)), (''time'', Num (event_time r)),
      (''latitude'', Num (latitude r)), (''longitude'', Num (longitude r)),
      (''depth'', Num (depth r)), (''magnitude'', Num (magnitude r)),
      (''url'', Str (url r)), (''distance'', Num (distance_km r)),
      (''timedelta'', Num (time_delta_s r)), (''azimuth'', Num (azimuth_deg r))]"

subsection \<open>main, after the arguments are parsed (lines 116-183)\<close>

definition argsum :: "args \<Rightarrow> nat" where
  "argsum a = of_bool (print_all a) + of_bool (print_url a) + of_bool (print_verbose a)"

definition mutex_msg :: string where
  "mutex_msg = ''The -a, -v, and -u options are mutually exclusive. ''
     @ ''Choose one of these options. Exiting.''"

definition together_msg :: string where
  "together_msg = ''You must select -a and -o together. Exiting''"

definition extension_msg :: "string \<Rightarrow> string" where
  "extension_msg fext = ''File extension '' @ fext @ '' not in list of supported ''
     @ ''formats: ['' @ [CHR 0x27] @ ''.xlsx'' @ [CHR 0x27] @ '', '' @ [CHR 0x27]
     @ ''.csv'' @ [CHR 0x27] @ '']. Exiting.''"

definition nomatch_msg :: string where
  "nomatch_msg = ''No events found matching your search criteria. Exiting.''"

definition wrote_msg :: "nat \<Rightarrow> string \<Rightarrow> string" where
  "wrote_msg n path = ''Wrote '' @ str_nat n @ '' records to '' @ path"

definition usage_exit :: "string \<Rightarrow> outcome" where
  "usage_exit msg =
     \<lparr>stdout = [Text msg], logged = [], written = [], queries = [], status = Exit 1\<rparr>"

text \<open>Lines 141-147: the window and the radius handed to the query.\<close>

definition twindow_of :: "args \<Rightarrow> real" where
  "twindow_of a = (if truthy (window a) then (case window a of Some w \<Rightarrow> w | None \<Rightarrow> TIME_WINDOW)
                   else TIME_WINDOW)"

definition radius_of :: "args \<Rightarrow> real" where
  "radius_of a = (if truthy (radius a) then (case radius a of Some r \<Rightarrow> r | None \<Rightarrow> SEARCH_RADIUS)
                  else SEARCH_RADIUS)"

definition query_of :: "args \<Rightarrow> query" where
  "query_of a =
     \<lparr>q_time = time a, q_lat = lat a, q_lon = lon a,
      q_twindow = twindow_of a, q_radius = radius_of a\<rparr>"

text \<open>Lines 157-183: what is done with a frame that was found.\<close>

definition present :: "args \<Rightarrow> ranked list \<Rightarrow> outcome" where
  "present a event_df =
     (case event_df of
        [] \<Rightarrow> \<lparr>stdout = [], logged = [], written = [], queries = [query_of a],
               status = Uncaught IndexError\<rparr>
      | nearest # _ \<Rightarrow>
          if print_all a then
            (case outfile a of
               None \<Rightarrow> \<lparr>stdout = [Frame event_df], logged = [], written = [],
                        queries = [query_of a], status = Exit 0\<rparr>
             | Some path \<Rightarrow>
                 if path = [] then
                   \<lparr>stdout = [Frame event_df], logged = [], written = [],
                    queries = [query_of a], status = Exit 0\<rparr>
                 else
                   \<lparr>stdout = [Text (wrote_msg (length event_df) path)], logged = [],
                    written = [(path, if snd (splitext path) = ''.xlsx'' then Excel else Csv,
                                event_df)],
                    queries = [query_of a], status = Exit 0\<rparr>)
          else if print_verbose a then
            \<lparr>stdout = Header (Str (event_id nearest))
                      # map (\<lambda>(col, v). Field col v)
                          (filter (\<lambda>(col, v). col \<noteq> ''id'') (series nearest)),
             logged = [], written = [], queries = [query_of a], status = Exit 0\<rparr>
          else if print_url a then
            \<lparr>stdout = [Cell (Str (url nearest))], logged = [], written = [],
             queries = [query_of a], status = Exit 0\<rparr>
          else
            (case values_attr (Str (event_id nearest)) of
               Inl e \<Rightarrow> \<lparr>stdout = [], logged = [], written = [], queries = [query_of a],
                         status = Uncaught e\<rparr>
             | Inr vs \<Rightarrow>
                 (case vs of
                    [] \<Rightarrow> \<lparr>stdout = [], logged = [], written = [], queries = [query_of a],
                           status = Uncaught IndexError\<rparr>
                  | v # _ \<Rightarrow> \<lparr>stdout = [Cell v], logged = [], written = [],
                              queries = [query_of a], status = Exit 0\<rparr>)))"

text \<open>
  The body of \<^verbatim>\<open>main\<close> from line 116 on. \<^verbatim>\<open>find_nearby_events\<close> is not under src/ and
  is a parameter: it answers a query with \<open>None\<close> or with a frame.
  \<^verbatim>\<open>setup_logger\<close> (line 139), which only configures where the log goes, is left out.
\<close>

definition main_body :: "(query \<Rightarrow> ranked list option) \<Rightarrow> args \<Rightarrow> outcome" where
  "main_body find_nearby_events a =
     (if argsum a > 1 then usage_exit mutex_msg
      else if outfile a \<noteq> None \<and> \<not> print_all a then usage_exit together_msg
      else
        (case (case outfile a of
                 None \<Rightarrow> None
               | Some path \<Rightarrow>
                   (let fext = snd (splitext path)
                    in if fext \<notin> set supported then Some fext else None)) of
           Some fext \<Rightarrow> usage_exit (extension_msg fext)
         | None \<Rightarrow>
             (case find_nearby_events (query_of a) of
                None \<Rightarrow> \<lparr>stdout = [], logged = [nomatch_msg], written = [],
                         queries = [query_of a], status = Exit 0\<rparr>
              | Some event_df \<Rightarrow> present a event_df)))"

text \<open>The three guards of lines 116-137, which end the program before any query.\<close>

definition usage_error :: "args \<Rightarrow> bool" where
  "usage_error a =
     (argsum a > 1
      \<or> (outfile a \<noteq> None \<and> \<not> print_all a)
      \<or> (case outfile a of None \<Rightarrow> False | Some path \<Rightarrow> snd (splitext path) \<notin> set supported))"

subsection \<open>The command line and parse_args (line 114)\<close>

text \<open>
  What argparse gets from the \<^verbatim>\<open>type\<close> callable of an argument (\<^verbatim>\<open>maketime\<close> for the
  time, \<^verbatim>\<open>float\<close> for the numbers): the converted value; or an ArgumentTypeError,
  TypeError or ValueError, which argparse reports as a usage message on stderr and
  ends the process with status 2; or any other exception, which argparse does not
  catch. \<^verbatim>\<open>float\<close> raises ValueError on a string that is no number. \<^verbatim>\<open>maketime\<close> is not
  under src/, so the command line carries the outcome of each conversion.
\<close>

datatype 'a conv = Converted 'a | Rejected | Raised

record cmdline =
  time_arg :: "real conv"
  lat_arg :: "real conv"
  lon_arg :: "real conv"
  radius_opt :: "real conv option"
  window_opt :: "real conv option"
  all_flag :: bool
  url_flag :: bool
  verbose_flag :: bool
  outfile_opt :: "string option"
  logfile_opt :: "string option"
  loglevel_opt :: "string option"

fun get_value :: "'a conv \<Rightarrow> status + 'a" where
  "get_value (Converted v) = Inr v"
| "get_value Rejected = Inl (Exit 2)"
| "get_value Raised = Inl (Uncaught OtherException)"

fun get_optional :: "'a conv option \<Rightarrow> status + 'a option" where
  "get_optional None = Inr None"
| "get_optional (Some c) = (case get_value c of Inl e \<Rightarrow> Inl e | Inr v \<Rightarrow> Inr (Some v))"

definition loglevels :: "string list" where
  "loglevels = [''debug'', ''info'', ''warning'', ''error'']"

text \<open>
  The arguments are converted in the order of the documented command line: the three
  positional arguments, then the options. The first failure ends the parse.
\<close>

definition parse_args :: "cmdline \<Rightarrow> status + args" where
  "parse_args c =
     (case get_value (time_arg c) of Inl e \<Rightarrow> Inl e | Inr t \<Rightarrow>
     (case get_value (lat_arg c) of Inl e \<Rightarrow> Inl e | Inr la \<Rightarrow>
     (case get_value (lon_arg c) of Inl e \<Rightarrow> Inl e | Inr lo \<Rightarrow>
     (case get_optional (radius_opt c) of Inl e \<Rightarrow> Inl e | Inr r \<Rightarrow>
     (case get_optional (window_opt c) of Inl e \<Rightarrow> Inl e | Inr w \<Rightarrow>
     (let level = (case loglevel_opt c of None \<Rightarrow> ''info'' | Some l \<Rightarrow> l)
      in if level \<notin> set loglevels then Inl (Exit 2)
         else Inr \<lparr>time = t, lat = la, lon = lo, radius = r, window = w,
                   print_all = all_flag c, print_url = url_flag c,
                   print_verbose = verbose_flag c, outfile = outfile_opt c,
                   logfile = (case logfile_opt c of None \<Rightarrow> ''stderr'' | Some f \<Rightarrow> f),
                   loglevel = level\<rparr>))))))"

definition main :: "(query \<Rightarrow> ranked list option) \<Rightarrow> cmdline \<Rightarrow> outcome" where
  "main find_nearby_events c =
     (case parse_args c of
        Inl st \<Rightarrow> \<lparr>stdout = [], logged = [], written = [], queries = [], status = st\<rparr>
      | Inr a \<Rightarrow> main_body find_nearby_events a)"

subsection \<open>The nearest-event ranker\<close>

text \<open>
  Modelled from the spec: \<^verbatim>\<open>find_nearby_events\<close> (libcomcat.dataframes) is not under
  src/. Section 4.3, step 1: each candidate gets its great-circle distance from the
  target, the absolute difference of its time from the target's, and the bearing from
  the target. The two trigonometric functions are parameters.
\<close>

definition rank_event ::
  "(real \<Rightarrow> real \<Rightarrow> real \<Rightarrow> real \<Rightarrow> real) \<Rightarrow> (real \<Rightarrow> real \<Rightarrow> real \<Rightarrow> real \<Rightarrow> real)
     \<Rightarrow> query \<Rightarrow> event \<Rightarrow> ranked" where
  "rank_event haversine azimuth q c =
     \<lparr>event_id = event_id c, event_time = event_time c, latitude = latitude c,
      longitude = longitude c, depth = depth c, magnitude = magnitude c, url = url c,
      distance_km = haversine (q_lat q) (q_lon q) (latitude c) (longitude c),
      time_delta_s = \<bar>event_time c - q_time q\<bar>,
      azimuth_deg = azimuth (q_lat q) (q_lon q) (latitude c) (longitude c)\<rparr>"

text \<open>
  Modelled from the spec: step 2 of section 4.3, the filter with inclusive bounds.
\<close>

definition in_bounds :: "query \<Rightarrow> ranked \<Rightarrow> bool" where
  "in_bounds q r = (distance_km r \<le> q_radius q \<and> time_delta_s r \<le> q_twindow q)"

text \<open>
  Modelled from the spec: the composite key of step 3, time delta first, distance second.
\<close>

definition rank_key :: "ranked \<Rightarrow> real \<times> real" where
  "rank_key r = (time_delta_s r, distance_km r)"

definition key_le :: "ranked \<Rightarrow> ranked \<Rightarrow> bool" where
  "key_le a b =
     (time_delta_s a < time_delta_s b
      \<or> (time_delta_s a = time_delta_s b \<and> distance_km a \<le> distance_km b))"

text \<open>
  Modelled from the spec: step 3, a stable ascending sort; a row goes in front of the
  rows that follow it in encounter order and have the same key.
\<close>

fun insert_ranked :: "ranked \<Rightarrow> ranked list \<Rightarrow> ranked list" where
  "insert_ranked r [] = [r]"
| "insert_ranked r (x # xs) = (if key_le r x then r # x # xs else x # insert_ranked r xs)"

definition sort_ranked :: "ranked list \<Rightarrow> ranked list" where
  "sort_ranked rs = foldr insert_ranked rs []"

text \<open>
  Modelled from the spec: the candidates of a query in encounter order, ranked and
  filtered. \<open>fetch\<close> is the catalog service with the result mapper, a black box.
\<close>

definition candidates ::
  "(real \<Rightarrow> real \<Rightarrow> real \<Rightarrow> real \<Rightarrow> real) \<Rightarrow> (real \<Rightarrow> real \<Rightarrow> real \<Rightarrow> real \<Rightarrow> real)
     \<Rightarrow> (query \<Rightarrow> event list) \<Rightarrow> query \<Rightarrow> ranked list" where
  "candidates haversine azimuth fetch q =
     filter (in_bounds q) (map (rank_event haversine azimuth q) (fetch q))"

text \<open>
  Modelled from the spec: \<^verbatim>\<open>find_nearby_events\<close>, steps 1 to 4 of section 4.3; an empty
  result is the no-match signal, the \<^verbatim>\<open>None\<close> that line 152 of \<^verbatim>\<open>main\<close> tests for.
\<close>

definition find_nearby_events ::
  "(real \<Rightarrow> real \<Rightarrow> real \<Rightarrow> real \<Rightarrow> real) \<Rightarrow> (real \<Rightarrow> real \<Rightarrow> real \<Rightarrow> real \<Rightarrow> real)
     \<Rightarrow> (query \<Rightarrow> event list) \<Rightarrow> query \<Rightarrow> ranked list option" where
  "find_nearby_events haversine azimuth fetch q =
     (let event_df = sort_ranked (candidates haversine azimuth fetch q)
      in if event_df = [] then None else Some event_df)"

subsection \<open>Sample invocations\<close>

text \<open>
  The invocation of the program's own help text,
  \<^verbatim>\<open>findid 2019-07-15T10:39:32 35.932 -117.715\<close>, as a command line and as the namespace
  argparse makes of it; the time is in seconds since 1970.
\<close>

definition documented_cmdline :: cmdline where
  "documented_cmdline =
     \<lparr>time_arg = Converted 1563187172, lat_arg = Converted 35.932,
      lon_arg = Converted (- 117.715), radius_opt = None, window_opt = None,
      all_flag = False, url_flag = False, verbose_flag = False, outfile_opt = None,
      logfile_opt = None, loglevel_opt = None\<rparr>"

definition documented_args :: args where
  "documented_args =
     \<lparr>time = 1563187172, lat = 35.932, lon = - 117.715, radius = None, window = None,
      print_all = False, print_url = False, print_verbose = False, outfile = None,
      logfile = ''stderr'', loglevel = ''info''\<rparr>"

text \<open>A catalog that answers every query with no match, and one that knows one event.\<close>

definition empty_catalog :: "query \<Rightarrow> ranked list option" where
  "empty_catalog q = None"

definition ridgecrest :: ranked where
  "ridgecrest =
     \<lparr>event_id = ''ci38996632'', event_time = 1563187172, latitude = 35.932,
      longitude = - 117.715, depth = 2, magnitude = 3,
      url = ''https://earthquake.usgs.gov/earthquakes/eventpage/ci38996632'',
      distance_km = 0, time_delta_s = 0, azimuth_deg = 0\<rparr>"

definition ridgecrest_catalog :: "query \<Rightarrow> ranked list option" where
  "ridgecrest_catalog q = Some [ridgecrest]"

text \<open>
  Inputs on which the ranker is evaluated: a distance in degrees that stands for the
  great-circle distance, a constant bearing, and a service that returns four candidates,
  the second and third at the same distance and time difference from the documented
  target, the fourth outside the 16 s window.
\<close>

definition degrees_apart :: "real \<Rightarrow> real \<Rightarrow> real \<Rightarrow> real \<Rightarrow> real" where
  "degrees_apart lat0 lon0 lat1 lon1 = \<bar>lat1 - lat0\<bar> + \<bar>lon1 - lon0\<bar>"

definition due_north :: "real \<Rightarrow> real \<Rightarrow> real \<Rightarrow> real \<Rightarrow> real" where
  "due_north lat0 lon0 lat1 lon1 = 0"

definition candidate :: "string \<Rightarrow> real \<Rightarrow> real \<Rightarrow> event" where
  "candidate name t la =
     \<lparr>event_id = name, event_time = t, latitude = la, longitude = - 117.715, depth = 2,
      magnitude = 3, url = ''https://earthquake.usgs.gov/earthquakes/eventpage/'' @ name\<rparr>"

definition four_candidates :: "query \<Rightarrow> event list" where
  "four_candidates q =
     [candidate ''late'' 1563187177 35.932, candidate ''before'' 1563187170 36,
      candidate ''after'' 1563187174 36, candidate ''outside'' 1563187202 35.932]"

definition ranked_candidate :: "string \<Rightarrow> real \<Rightarrow> real \<Rightarrow> real \<Rightarrow> real \<Rightarrow> ranked" where
  "ranked_candidate name t la d dt =
     \<lparr>event_id = name, event_time = t, latitude = la, longitude = - 117.715, depth = 2,
      magnitude = 3, url = ''https://earthquake.usgs.gov/earthquakes/eventpage/'' @ name,
      distance_km = d, time_delta_s = dt, azimuth_deg = 0\<rparr>"

definition three_ranked :: "ranked list" where
  "three_ranked =
     [ranked_candidate ''before'' 1563187170 36 0.068 2,
      ranked_candidate ''after'' 1563187174 36 0.068 2,
      ranked_candidate ''late'' 1563187177 35.932 0 5]"

section \<open>Properties\<close>

subsection \<open>The order of the ranker\<close>

lemma key_le_refl: "key_le a a"
  by (simp add: key_le_def)

lemma key_le_total: "key_le a b \<or> key_le b a"
  by (auto simp: key_le_def)

lemma key_le_trans: "key_le a b \<Longrightarrow> key_le b c \<Longrightarrow> key_le a c"
  by (auto simp: key_le_def)

lemma key_le_same_key: "rank_key a = rank_key b \<Longrightarrow> key_le a b"
  by (simp add: key_le_def rank_key_def)

lemma set_insert_ranked: "set (insert_ranked r xs) = insert r (set xs)"
  by (induction xs) auto

lemma sorted_insert_ranked:
  "sorted_wrt key_le xs \<Longrightarrow> sorted_wrt key_le (insert_ranked r xs)"
proof (induction xs)
  case Nil
  then show ?case by simp
next
  case (Cons x xs)
  show ?case
  proof (cases "key_le r x")
    case True
    with Cons.prems show ?thesis by (auto intro: key_le_trans)
  next
    case False
    then have "key_le x r" using key_le_total by blast
    with False Cons show ?thesis by (auto simp: set_insert_ranked)
  qed
qed

lemma sorted_sort_ranked: "sorted_wrt key_le (sort_ranked rs)"
  unfolding sort_ranked_def by (induction rs) (simp_all add: sorted_insert_ranked)

lemma set_sort_ranked: "set (sort_ranked rs) = set rs"
  unfolding sort_ranked_def by (induction rs) (simp_all add: set_insert_ranked)

lemma filter_insert_ranked:
  "filter (\<lambda>x. rank_key x = k) (insert_ranked r xs) =
     (if rank_key r = k then r # filter (\<lambda>x. rank_key x = k) xs
      else filter (\<lambda>x. rank_key x = k) xs)"
  by (induction xs) (auto dest: key_le_same_key)

lemma filter_sort_ranked:
  "filter (\<lambda>x. rank_key x = k) (sort_ranked rs) = filter (\<lambda>x. rank_key x = k) rs"
  unfolding sort_ranked_def by (induction rs) (simp_all add: filter_insert_ranked)

subsection \<open>The two ways through main\<close>

lemma main_body_usage:
  "usage_error a \<Longrightarrow>
     main_body f a \<in> {usage_exit mutex_msg, usage_exit together_msg}
     \<or> (\<exists>path. outfile a = Some path \<and> snd (splitext path) \<notin> set supported
           \<and> main_body f a = usage_exit (extension_msg (snd (splitext path))))"
  by (auto simp: usage_error_def main_body_def Let_def split: option.splits)

lemma main_body_query:
  "\<not> usage_error a \<Longrightarrow>
     main_body f a =
       (case f (query_of a) of
          None \<Rightarrow> \<lparr>stdout = [], logged = [nomatch_msg], written = [],
                   queries = [query_of a], status = Exit 0\<rparr>
        | Some event_df \<Rightarrow> present a event_df)"
  by (auto simp: usage_error_def main_body_def Let_def split: option.splits)

lemma main_parsed: "parse_args c = Inr a \<Longrightarrow> main f c = main_body f a"
  by (simp add: main_def)

lemma splitext_out_txt: "splitext ''out.txt'' = (''out'', ''.txt'')"
  by code_simp

lemma documented_parse: "parse_args documented_cmdline = Inr documented_args"
  by (simp add: parse_args_def documented_cmdline_def documented_args_def loglevels_def)

lemma documented_no_usage_error: "\<not> usage_error documented_args"
  by (simp add: usage_error_def documented_args_def argsum_def)

lemma documented_query:
  "query_of documented_args =
     \<lparr>q_time = 1563187172, q_lat = 35.932, q_lon = - 117.715, q_twindow = 16, q_radius = 100\<rparr>"
  by (simp add: query_of_def documented_args_def twindow_of_def radius_of_def
      TIME_WINDOW_def SEARCH_RADIUS_def)

subsection \<open>The ranked frame\<close>

lemma four_candidates_ranked:
  "find_nearby_events degrees_apart due_north four_candidates (query_of documented_args)
     = Some three_ranked"
  by (simp add: find_nearby_events_def candidates_def four_candidates_def candidate_def
      rank_event_def in_bounds_def documented_query degrees_apart_def due_north_def
      sort_ranked_def key_le_def three_ranked_def ranked_candidate_def)

text \<open>
  C1. Whenever the ranker answers a query with a frame, the frame is sorted ascending by
  the key (time delta, distance); rows with the same key keep the order in which the
  service returned them; the frame holds exactly the candidates within the bounds; its
  first row is least in the key order. \<^verbatim>\<open>main\<close> hands that frame unchanged to the
  presenting code, and the verbose and URL modes print from its first row.
\<close>

theorem ranked_frame_sorted_stable:
  assumes "find_nearby_events haversine azimuth fetch q = Some event_df"
  shows "sorted_wrt key_le event_df
    \<and> (\<forall>k. filter (\<lambda>r. rank_key r = k) event_df
            = filter (\<lambda>r. rank_key r = k) (candidates haversine azimuth fetch q))
    \<and> set event_df = set (candidates haversine azimuth fetch q)
    \<and> (\<exists>nearest rest. event_df = nearest # rest
          \<and> (\<forall>r \<in> set event_df. key_le nearest r)
          \<and> (\<forall>a. \<not> usage_error a \<and> query_of a = q \<longrightarrow>
                main_body (find_nearby_events haversine azimuth fetch) a = present a event_df)
          \<and> (\<forall>a. \<not> print_all a \<and> print_verbose a \<longrightarrow>
                stdout (present a event_df)
                  = Header (Str (event_id nearest))
                    # map (\<lambda>(col, v). Field col v)
                        (filter (\<lambda>(col, v). col \<noteq> ''id'') (series nearest)))
          \<and> (\<forall>a. \<not> print_all a \<and> \<not> print_verbose a \<and> print_url a \<longrightarrow>
                stdout (present a event_df) = [Cell (Str (url nearest))]))"
proof -
  let ?cs = "candidates haversine azimuth fetch q"
  from assms have df: "event_df = sort_ranked ?cs" and ne: "event_df \<noteq> []"
    by (auto simp: find_nearby_events_def Let_def split: if_splits)
  have s: "sorted_wrt key_le event_df"
    unfolding df by (rule sorted_sort_ranked)
  have st: "\<forall>k. filter (\<lambda>r. rank_key r = k) event_df = filter (\<lambda>r. rank_key r = k) ?cs"
    unfolding df by (simp add: filter_sort_ranked)
  have se: "set event_df = set ?cs"
    unfolding df by (rule set_sort_ranked)
  from ne obtain nearest rest where c: "event_df = nearest # rest"
    by (cases event_df) auto
  have least: "\<forall>r \<in> set event_df. key_le nearest r"
    using s unfolding c by (auto simp: key_le_refl)
  have handed: "\<forall>a. \<not> usage_error a \<and> query_of a = q \<longrightarrow>
      main_body (find_nearby_events haversine azimuth fetch) a = present a event_df"
    using assms by (auto simp: main_body_query)
  have verbose: "\<forall>a. \<not> print_all a \<and> print_verbose a \<longrightarrow>
      stdout (present a event_df)
        = Header (Str (event_id nearest))
          # map (\<lambda>(col, v). Field col v)
              (filter (\<lambda>(col, v). col \<noteq> ''id'') (series nearest))"
    unfolding c by (simp add: present_def)
  have urlmode: "\<forall>a. \<not> print_all a \<and> \<not> print_verbose a \<and> print_url a \<longrightarrow>
      stdout (present a event_df) = [Cell (Str (url nearest))]"
    unfolding c by (simp add: present_def)
  from s st se c least handed verbose urlmode show ?thesis by blast
qed

theorem ranked_frame_sorted_stable_witness:
  "find_nearby_events degrees_apart due_north four_candidates (query_of documented_args)
     = Some three_ranked
   \<and> sorted_wrt key_le three_ranked
   \<and> map event_id three_ranked = [''before'', ''after'', ''late'']
   \<and> stdout (main_body (find_nearby_events degrees_apart due_north four_candidates)
        (documented_args\<lparr>print_url := True\<rparr>))
      = [Cell (Str ''https://earthquake.usgs.gov/earthquakes/eventpage/before'')]"
proof -
  let ?a = "documented_args\<lparr>print_url := True\<rparr>"
  have q: "query_of ?a = query_of documented_args"
    by (simp add: query_of_def twindow_of_def radius_of_def)
  have u: "\<not> usage_error ?a"
    by (simp add: usage_error_def documented_args_def argsum_def)
  have m: "\<not> print_all ?a \<and> \<not> print_verbose ?a \<and> print_url ?a"
    by (simp add: documented_args_def)
  from ranked_frame_sorted_stable [OF four_candidates_ranked]
  obtain nearest rest where s: "sorted_wrt key_le three_ranked"
    and c: "three_ranked = nearest # rest"
    and h: "\<forall>a. \<not> usage_error a \<and> query_of a = query_of documented_args \<longrightarrow>
         main_body (find_nearby_events degrees_apart due_north four_candidates) a
           = present a three_ranked"
    and p: "\<forall>a. \<not> print_all a \<and> \<not> print_verbose a \<and> print_url a \<longrightarrow>
         stdout (present a three_ranked) = [Cell (Str (url nearest))]"
    by blast
  from c have n: "url nearest = ''https://earthquake.usgs.gov/earthquakes/eventpage/before''"
    by (auto simp: three_ranked_def ranked_candidate_def)
  have ids: "map event_id three_ranked = [''before'', ''after'', ''late'']"
    by (simp add: three_ranked_def ranked_candidate_def)
  from h q u have "main_body (find_nearby_events degrees_apart due_north four_candidates) ?a
      = present ?a three_ranked" by blast
  with p m n four_candidates_ranked s ids show ?thesis by simp
qed

subsection \<open>Parsing, queries and exits\<close>

lemma parse_failure_no_query:
  "parse_args c = Inl st \<Longrightarrow>
     main f c = \<lparr>stdout = [], logged = [], written = [], queries = [], status = st\<rparr>"
  by (simp add: main_def)

lemma parse_args_fields:
  "parse_args c = Inr a \<Longrightarrow>
     time_arg c = Converted (time a) \<and> lat_arg c = Converted (lat a)
     \<and> lon_arg c = Converted (lon a)"
  by (cases "time_arg c"; cases "lat_arg c"; cases "lon_arg c";
      cases "radius_opt c"; cases "window_opt c")
     (auto simp: parse_args_def Let_def split: sum.splits if_splits)

lemma parse_args_options:
  "parse_args c = Inr a \<Longrightarrow>
     outfile a = outfile_opt c \<and> print_all a = all_flag c
     \<and> print_url a = url_flag c \<and> print_verbose a = verbose_flag c"
  by (auto simp: parse_args_def Let_def split: sum.splits if_splits)

lemma rejected_coordinate:
  "lat_arg c = Rejected \<or> lon_arg c = Rejected \<Longrightarrow> \<exists>st. parse_args c = Inl st \<and> exit_code st \<noteq> 0"
  by (cases "time_arg c"; cases "lat_arg c"; cases "lon_arg c")
     (auto simp: parse_args_def)

lemma present_queries: "queries (present a event_df) = [query_of a]"
  by (cases event_df) (simp_all add: present_def split: option.splits)

lemma main_body_queries: "\<not> usage_error a \<Longrightarrow> queries (main_body f a) = [query_of a]"
  by (cases "f (query_of a)") (simp_all add: main_body_query present_queries)

lemma usage_exit_fields:
  "stdout (usage_exit msg) = [Text msg]" "logged (usage_exit msg) = []"
  "written (usage_exit msg) = []" "queries (usage_exit msg) = []"
  "status (usage_exit msg) = Exit 1"
  by (simp_all add: usage_exit_def)

lemma present_exit_zero:
  "print_all a \<or> print_verbose a \<or> print_url a \<Longrightarrow> status (present a (r # rs)) = Exit 0"
  by (auto simp: present_def split: option.splits)

lemma get_value_no_raise: "get_value v = Inl st \<Longrightarrow> v \<noteq> Raised \<Longrightarrow> st = Exit 2"
  by (cases v) auto

lemma get_optional_no_raise:
  "get_optional v = Inl st \<Longrightarrow> v \<noteq> Some Raised \<Longrightarrow> st = Exit 2"
  by (cases v) (auto split: sum.splits dest: get_value_no_raise)

lemma parse_args_no_raise:
  assumes "parse_args c = Inl st"
    and "time_arg c \<noteq> Raised" and "lat_arg c \<noteq> Raised" and "lon_arg c \<noteq> Raised"
    and "radius_opt c \<noteq> Some Raised" and "window_opt c \<noteq> Some Raised"
  shows "st = Exit 2"
  using assms
  by (auto simp: parse_args_def Let_def split: sum.splits if_splits
      dest: get_value_no_raise get_optional_no_raise)

subsection \<open>Coordinates\<close>

text \<open>
  C2, as stated, fails: a latitude of 91 is outside [-90, 90], and the program neither
  ends with a validation error nor keeps it from the catalog query. With the documented
  time and longitude, \<^verbatim>\<open>find_nearby_events\<close> is called with latitude 91, and when it
  finds nothing the process ends with status 0.
\<close>

theorem out_of_range_latitude_is_queried:
  "\<not> (91 :: real) \<le> 90
   \<and> lat_arg (documented_cmdline\<lparr>lat_arg := Converted 91\<rparr>) = Converted 91
   \<and> main empty_catalog (documented_cmdline\<lparr>lat_arg := Converted 91\<rparr>)
     = \<lparr>stdout = [], logged = [nomatch_msg], written = [],
        queries = [\<lparr>q_time = 1563187172, q_lat = 91, q_lon = - 117.715,
                    q_twindow = 16, q_radius = 100\<rparr>],
        status = Exit 0\<rparr>"
  by (simp add: main_def parse_args_def documented_cmdline_def loglevels_def main_body_def
      argsum_def empty_catalog_def query_of_def twindow_of_def radius_of_def
      TIME_WINDOW_def SEARCH_RADIUS_def)

text \<open>
  C2, amended. \<^verbatim>\<open>main\<close> has no range check: for every command line that argparse
  accepts and that passes the three usage guards, exactly one call of
  \<^verbatim>\<open>find_nearby_events\<close> is made, and it receives the converted latitude and longitude
  as they are, whatever their values. Only a latitude or longitude that \<^verbatim>\<open>float\<close>
  rejects ends the program before any call, with a status other than 0.
\<close>

theorem coordinates_reach_query_unchecked:
  "(parse_args c = Inr a \<and> \<not> usage_error a \<longrightarrow>
      queries (main f c) = [query_of a]
      \<and> lat_arg c = Converted (q_lat (query_of a))
      \<and> lon_arg c = Converted (q_lon (query_of a)))
   \<and> (lat_arg c = Rejected \<or> lon_arg c = Rejected \<longrightarrow>
      queries (main f c) = [] \<and> exit_code (status (main f c)) \<noteq> 0)"
proof (intro conjI impI)
  assume h: "parse_args c = Inr a \<and> \<not> usage_error a"
  then have m: "main f c = main_body f a" by (simp add: main_parsed)
  have "queries (main_body f a) = [query_of a]"
    using h by (simp add: main_body_queries)
  with m show "queries (main f c) = [query_of a]" by simp
  from h parse_args_fields [of c a]
  show "lat_arg c = Converted (q_lat (query_of a))"
    and "lon_arg c = Converted (q_lon (query_of a))"
    by (simp_all add: query_of_def)
next
  assume "lat_arg c = Rejected \<or> lon_arg c = Rejected"
  then obtain st where p: "parse_args c = Inl st" and e: "exit_code st \<noteq> 0"
    using rejected_coordinate by blast
  from p show "queries (main f c) = []" by (simp add: parse_failure_no_query)
  from p e show "exit_code (status (main f c)) \<noteq> 0" by (simp add: parse_failure_no_query)
qed

theorem coordinates_reach_query_unchecked_witness:
  "parse_args (documented_cmdline\<lparr>lat_arg := Converted 91\<rparr>) = Inr (documented_args\<lparr>lat := 91\<rparr>)
   \<and> \<not> usage_error (documented_args\<lparr>lat := 91\<rparr>)
   \<and> queries (main empty_catalog (documented_cmdline\<lparr>lat_arg := Converted 91\<rparr>))
       = [query_of (documented_args\<lparr>lat := 91\<rparr>)]
   \<and> q_lat (query_of (documented_args\<lparr>lat := 91\<rparr>)) = 91
   \<and> lat_arg (documented_cmdline\<lparr>lat_arg := Rejected\<rparr>) = Rejected
   \<and> queries (main empty_catalog (documented_cmdline\<lparr>lat_arg := Rejected\<rparr>)) = []"
proof -
  have p: "parse_args (documented_cmdline\<lparr>lat_arg := Converted 91\<rparr>)
      = Inr (documented_args\<lparr>lat := 91\<rparr>)"
    by (simp add: parse_args_def documented_cmdline_def documented_args_def loglevels_def)
  have u: "\<not> usage_error (documented_args\<lparr>lat := 91\<rparr>)"
    by (simp add: usage_error_def documented_args_def argsum_def)
  have l: "q_lat (query_of (documented_args\<lparr>lat := 91\<rparr>)) = 91"
    by (simp add: query_of_def)
  have r: "lat_arg (documented_cmdline\<lparr>lat_arg := Rejected\<rparr>) = Rejected"
    by simp
  from coordinates_reach_query_unchecked
         [of "documented_cmdline\<lparr>lat_arg := Converted 91\<rparr>" "documented_args\<lparr>lat := 91\<rparr>"
             empty_catalog]
       coordinates_reach_query_unchecked
         [of "documented_cmdline\<lparr>lat_arg := Rejected\<rparr>" documented_args empty_catalog]
       p u l r
  show ?thesis by simp
qed

subsection \<open>Usage errors\<close>

text \<open>
  C3, as stated, fails in one part: with \<^verbatim>\<open>-a\<close> and \<^verbatim>\<open>-u\<close> together the program does
  print something, the message of line 119.
\<close>

theorem mutually_exclusive_message_printed:
  "argsum (documented_args\<lparr>print_all := True, print_url := True\<rparr>) = 2
   \<and> stdout (main_body empty_catalog (documented_args\<lparr>print_all := True, print_url := True\<rparr>))
     \<noteq> []"
  by (simp add: main_body_def argsum_def documented_args_def usage_exit_def)

text \<open>
  C3, amended. When more than one of \<^verbatim>\<open>-a\<close>, \<^verbatim>\<open>-u\<close>, \<^verbatim>\<open>-v\<close> is given, the program
  prints the one line saying that the options are mutually exclusive and nothing else,
  logs nothing, writes no file, makes no call of \<^verbatim>\<open>find_nearby_events\<close>, and exits
  with status 1.
\<close>

theorem mutually_exclusive_flags_exit:
  "1 < argsum a \<Longrightarrow>
     main_body f a
       = \<lparr>stdout = [Text mutex_msg], logged = [], written = [], queries = [], status = Exit 1\<rparr>"
  by (simp add: main_body_def usage_exit_def)

theorem mutually_exclusive_flags_exit_witness:
  "1 < argsum (documented_args\<lparr>print_all := True, print_url := True\<rparr>)
   \<and> main_body empty_catalog (documented_args\<lparr>print_all := True, print_url := True\<rparr>)
       = \<lparr>stdout = [Text mutex_msg], logged = [], written = [], queries = [], status = Exit 1\<rparr>"
proof -
  have h: "1 < argsum (documented_args\<lparr>print_all := True, print_url := True\<rparr>)"
    by (simp add: argsum_def documented_args_def)
  from h mutually_exclusive_flags_exit [OF h, of empty_catalog] show ?thesis by simp
qed

text \<open>
  C6, as stated, fails: with \<^verbatim>\<open>-o out.txt -a\<close> and a latitude that is no number, argparse
  ends the process with status 2 before \<^verbatim>\<open>main\<close> looks at the extension.
\<close>

theorem unsupported_extension_after_bad_latitude:
  "outfile_opt (documented_cmdline\<lparr>lat_arg := Rejected, all_flag := True,
       outfile_opt := Some ''out.txt''\<rparr>) = Some ''out.txt''
   \<and> snd (splitext ''out.txt'') \<notin> {''.xlsx'', ''.csv''}
   \<and> status (main empty_catalog (documented_cmdline\<lparr>lat_arg := Rejected, all_flag := True,
       outfile_opt := Some ''out.txt''\<rparr>)) = Exit 2"
  by (simp add: splitext_out_txt main_def parse_args_def documented_cmdline_def)

text \<open>
  C6, amended. For every command line that argparse accepts, when \<^verbatim>\<open>-o\<close> is given and the
  extension of the file, as \<^verbatim>\<open>os.path.splitext\<close> finds it, is neither \<^verbatim>\<open>.xlsx\<close> nor
  \<^verbatim>\<open>.csv\<close>, the program exits with status 1 after one line of usage message, makes no
  query and writes no file in any format; \<^verbatim>\<open>-o out.txt -a\<close> is rejected so.
\<close>

theorem unsupported_extension_rejected:
  assumes "parse_args c = Inr a" and "outfile_opt c = Some path"
    and "snd (splitext path) \<notin> {''.xlsx'', ''.csv''}"
  shows "status (main f c) = Exit 1
         \<and> queries (main f c) = []
         \<and> written (main f c) = []
         \<and> stdout (main f c)
             \<in> {[Text mutex_msg], [Text together_msg],
                 [Text (extension_msg (snd (splitext path)))]}"
proof -
  from assms(1,2) have o: "outfile a = Some path" by (simp add: parse_args_options)
  with assms(3) have "usage_error a" by (simp add: usage_error_def supported_def)
  from main_body_usage [OF this, of f] o have
    "status (main_body f a) = Exit 1
     \<and> queries (main_body f a) = []
     \<and> written (main_body f a) = []
     \<and> stdout (main_body f a)
         \<in> {[Text mutex_msg], [Text together_msg],
             [Text (extension_msg (snd (splitext path)))]}"
    by (auto simp: usage_exit_fields)
  with assms(1) show ?thesis by (simp add: main_parsed)
qed

theorem unsupported_extension_rejected_witness:
  "parse_args (documented_cmdline\<lparr>all_flag := True, outfile_opt := Some ''out.txt''\<rparr>)
     = Inr (documented_args\<lparr>print_all := True, outfile := Some ''out.txt''\<rparr>)
   \<and> snd (splitext ''out.txt'') \<notin> {''.xlsx'', ''.csv''}
   \<and> status (main empty_catalog
        (documented_cmdline\<lparr>all_flag := True, outfile_opt := Some ''out.txt''\<rparr>)) = Exit 1
   \<and> queries (main empty_catalog
        (documented_cmdline\<lparr>all_flag := True, outfile_opt := Some ''out.txt''\<rparr>)) = []
   \<and> written (main empty_catalog
        (documented_cmdline\<lparr>all_flag := True, outfile_opt := Some ''out.txt''\<rparr>)) = []"
proof -
  let ?c = "documented_cmdline\<lparr>all_flag := True, outfile_opt := Some ''out.txt''\<rparr>"
  have p: "parse_args ?c = Inr (documented_args\<lparr>print_all := True, outfile := Some ''out.txt''\<rparr>)"
    by (simp add: parse_args_def documented_cmdline_def documented_args_def loglevels_def)
  have o: "outfile_opt ?c = Some ''out.txt''" by simp
  have e: "snd (splitext ''out.txt'') \<notin> {''.xlsx'', ''.csv''}"
    by (simp add: splitext_out_txt)
  from unsupported_extension_rejected [OF p o e, of empty_catalog] p e
  show ?thesis by simp
qed

text \<open>
  C7, as stated, fails: with \<^verbatim>\<open>-o out.csv\<close>, no \<^verbatim>\<open>-a\<close>, and a latitude that is no number,
  argparse ends the process with status 2 before \<^verbatim>\<open>main\<close> compares the two options.
\<close>

theorem outfile_without_all_after_bad_latitude:
  "outfile_opt (documented_cmdline\<lparr>lat_arg := Rejected, outfile_opt := Some ''out.csv''\<rparr>)
     \<noteq> None
   \<and> \<not> all_flag (documented_cmdline\<lparr>lat_arg := Rejected, outfile_opt := Some ''out.csv''\<rparr>)
   \<and> status (main empty_catalog
        (documented_cmdline\<lparr>lat_arg := Rejected, outfile_opt := Some ''out.csv''\<rparr>)) = Exit 2"
  by (simp add: main_def parse_args_def documented_cmdline_def)

text \<open>
  C7, amended. For every command line that argparse accepts, when \<^verbatim>\<open>-o\<close> is given
  without \<^verbatim>\<open>-a\<close>, the program exits with status 1 after one line of usage message,
  before any query is made, any file written or anything logged.
\<close>

theorem outfile_requires_all:
  assumes "parse_args c = Inr a" and "outfile_opt c \<noteq> None" and "\<not> all_flag c"
  shows "status (main f c) = Exit 1
         \<and> queries (main f c) = []
         \<and> written (main f c) = []
         \<and> logged (main f c) = []
         \<and> stdout (main f c) \<in> {[Text mutex_msg], [Text together_msg]}"
proof -
  from assms have "outfile a \<noteq> None" and "\<not> print_all a"
    by (simp_all add: parse_args_options)
  then have "status (main_body f a) = Exit 1
         \<and> queries (main_body f a) = []
         \<and> written (main_body f a) = []
         \<and> logged (main_body f a) = []
         \<and> stdout (main_body f a) \<in> {[Text mutex_msg], [Text together_msg]}"
    by (simp add: main_body_def usage_exit_fields)
  with assms(1) show ?thesis by (simp add: main_parsed)
qed

theorem outfile_requires_all_witness:
  "parse_args (documented_cmdline\<lparr>outfile_opt := Some ''out.csv''\<rparr>)
     = Inr (documented_args\<lparr>outfile := Some ''out.csv''\<rparr>)
   \<and> outfile_opt (documented_cmdline\<lparr>outfile_opt := Some ''out.csv''\<rparr>) \<noteq> None
   \<and> \<not> all_flag (documented_cmdline\<lparr>outfile_opt := Some ''out.csv''\<rparr>)
   \<and> status (main empty_catalog (documented_cmdline\<lparr>outfile_opt := Some ''out.csv''\<rparr>))
       = Exit 1
   \<and> queries (main empty_catalog (documented_cmdline\<lparr>outfile_opt := Some ''out.csv''\<rparr>))
       = []"
proof -
  let ?c = "documented_cmdline\<lparr>outfile_opt := Some ''out.csv''\<rparr>"
  have p: "parse_args ?c = Inr (documented_args\<lparr>outfile := Some ''out.csv''\<rparr>)"
    by (simp add: parse_args_def documented_cmdline_def documented_args_def loglevels_def)
  have o: "outfile_opt ?c \<noteq> None" by simp
  have n: "\<not> all_flag ?c" by (simp add: documented_cmdline_def)
  from outfile_requires_all [OF p o n, of empty_catalog] p o n show ?thesis by simp
qed

subsection \<open>Radius and window\<close>

text \<open>
  C4 at the input \<^verbatim>\<open>-w 0\<close>: the window is supplied, with the value 0, and the query
  is made with the default window of 16 s.
\<close>

theorem zero_window_gets_default:
  "parse_args (documented_cmdline\<lparr>window_opt := Some (Converted 0)\<rparr>)
     = Inr (documented_args\<lparr>window := Some 0\<rparr>)
   \<and> queries (main empty_catalog (documented_cmdline\<lparr>window_opt := Some (Converted 0)\<rparr>))
     = [\<lparr>q_time = 1563187172, q_lat = 35.932, q_lon = - 117.715,
         q_twindow = 16, q_radius = 100\<rparr>]"
  by (simp add: main_def parse_args_def documented_cmdline_def documented_args_def
      loglevels_def main_body_def argsum_def empty_catalog_def query_of_def twindow_of_def
      radius_of_def TIME_WINDOW_def SEARCH_RADIUS_def)

text \<open>
  C10. An explicit zero for the window or for the radius behaves in every respect as if
  the option had not been given: the whole outcome of the program is the same, so
  nothing tells the user of the substitution, and the value used is the default, 16 s
  or 100 km. Every other supplied value is used as given, and the query carries these
  values.
\<close>

theorem explicit_zero_replaced_by_default:
  "main_body f (a\<lparr>window := Some 0\<rparr>) = main_body f (a\<lparr>window := None\<rparr>)
   \<and> main_body f (a\<lparr>radius := Some 0\<rparr>) = main_body f (a\<lparr>radius := None\<rparr>)
   \<and> q_twindow (query_of (a\<lparr>window := None\<rparr>)) = 16
   \<and> q_radius (query_of (a\<lparr>radius := None\<rparr>)) = 100
   \<and> (w \<noteq> 0 \<longrightarrow> q_twindow (query_of (a\<lparr>window := Some w\<rparr>)) = w)
   \<and> (r \<noteq> 0 \<longrightarrow> q_radius (query_of (a\<lparr>radius := Some r\<rparr>)) = r)
   \<and> (\<not> usage_error a \<longrightarrow> queries (main_body f a) = [query_of a])"
proof -
  have qw: "query_of (a\<lparr>window := Some 0\<rparr>) = query_of (a\<lparr>window := None\<rparr>)"
    by (simp add: query_of_def twindow_of_def radius_of_def)
  have qr: "query_of (a\<lparr>radius := Some 0\<rparr>) = query_of (a\<lparr>radius := None\<rparr>)"
    by (simp add: query_of_def twindow_of_def radius_of_def)
  have pw: "present (a\<lparr>window := Some 0\<rparr>) df = present (a\<lparr>window := None\<rparr>) df" for df
    by (cases df) (simp_all add: present_def qw split: option.splits)
  have pr: "present (a\<lparr>radius := Some 0\<rparr>) df = present (a\<lparr>radius := None\<rparr>) df" for df
    by (cases df) (simp_all add: present_def qr split: option.splits)
  have mw: "main_body f (a\<lparr>window := Some 0\<rparr>) = main_body f (a\<lparr>window := None\<rparr>)"
    by (simp add: main_body_def argsum_def qw pw cong: option.case_cong if_cong)
  have mr: "main_body f (a\<lparr>radius := Some 0\<rparr>) = main_body f (a\<lparr>radius := None\<rparr>)"
    by (simp add: main_body_def argsum_def qr pr cong: option.case_cong if_cong)
  have d: "q_twindow (query_of (a\<lparr>window := None\<rparr>)) = 16"
    "q_radius (query_of (a\<lparr>radius := None\<rparr>)) = 100"
    by (simp_all add: query_of_def twindow_of_def radius_of_def TIME_WINDOW_def
        SEARCH_RADIUS_def)
  have g: "w \<noteq> 0 \<longrightarrow> q_twindow (query_of (a\<lparr>window := Some w\<rparr>)) = w"
    "r \<noteq> 0 \<longrightarrow> q_radius (query_of (a\<lparr>radius := Some r\<rparr>)) = r"
    by (simp_all add: query_of_def twindow_of_def radius_of_def)
  have q: "\<not> usage_error a \<longrightarrow> queries (main_body f a) = [query_of a]"
    by (simp add: main_body_queries)
  from mw mr d g q show ?thesis by simp
qed

theorem explicit_zero_replaced_by_default_witness:
  "queries (main_body empty_catalog (documented_args\<lparr>window := Some 0\<rparr>))
     = [\<lparr>q_time = 1563187172, q_lat = 35.932, q_lon = - 117.715,
         q_twindow = 16, q_radius = 100\<rparr>]
   \<and> (120 :: real) \<noteq> 0
   \<and> q_twindow (query_of (documented_args\<lparr>window := Some 120\<rparr>)) = 120
   \<and> (200 :: real) \<noteq> 0
   \<and> q_radius (query_of (documented_args\<lparr>radius := Some 200\<rparr>)) = 200"
proof -
  have n: "documented_args\<lparr>window := None\<rparr> = documented_args"
    by (simp add: documented_args_def)
  have q: "queries (main_body empty_catalog documented_args) = [query_of documented_args]"
    using explicit_zero_replaced_by_default [of empty_catalog documented_args]
      documented_no_usage_error by blast
  from explicit_zero_replaced_by_default [of empty_catalog documented_args 120 200] n q
  show ?thesis by (simp add: documented_query)
qed

subsection \<open>No match, exit codes and the default mode\<close>

text \<open>
  C5. When the query finds nothing (\<^verbatim>\<open>find_nearby_events\<close> returns \<^verbatim>\<open>None\<close>), the
  program logs the message of line 154 at error severity, prints nothing, and exits
  with status 0, with no traceback.
\<close>

theorem no_match_exits_zero:
  assumes "\<not> usage_error a" and "f (query_of a) = None"
  shows "main_body f a
           = \<lparr>stdout = [], logged = [nomatch_msg], written = [],
              queries = [query_of a], status = Exit 0\<rparr>
         \<and> exit_code (status (main_body f a)) = 0
         \<and> \<not> traceback (status (main_body f a))"
  using assms by (simp add: main_body_query)

theorem no_match_exits_zero_witness:
  "\<not> usage_error documented_args \<and> empty_catalog (query_of documented_args) = None
   \<and> exit_code (status (main_body empty_catalog documented_args)) = 0
   \<and> logged (main_body empty_catalog documented_args) = [nomatch_msg]"
proof -
  have h: "empty_catalog (query_of documented_args) = None"
    by (simp add: empty_catalog_def)
  from no_match_exits_zero [of documented_args empty_catalog, OF documented_no_usage_error h]
    documented_no_usage_error h
  show ?thesis by simp
qed

text \<open>
  C8, as stated, fails: a latitude that is no number is a usage error, which argparse
  reports, and the process ends with status 2, not 1.
\<close>

theorem rejected_latitude_exits_two:
  "exit_code (status (main empty_catalog (documented_cmdline\<lparr>lat_arg := Rejected\<rparr>))) = 2"
  by (simp add: main_def parse_args_def documented_cmdline_def)

text \<open>
  C8, amended. For a command line that argparse accepts, the status is 1 on each of
  the three usage errors that \<^verbatim>\<open>main\<close> finds, and 0 when the query finds nothing or
  when the \<^verbatim>\<open>-a\<close>, \<^verbatim>\<open>-v\<close> or \<^verbatim>\<open>-u\<close> mode presents a frame that has a row. A command
  line that argparse rejects, with every failing conversion raising one of the
  exceptions argparse reports, ends with status 2.
\<close>

theorem exit_codes:
  "(parse_args c = Inr a \<and> usage_error a \<longrightarrow> status (main f c) = Exit 1)
   \<and> (parse_args c = Inr a \<and> \<not> usage_error a \<and> f (query_of a) = None \<longrightarrow>
        status (main f c) = Exit 0)
   \<and> (parse_args c = Inr a \<and> \<not> usage_error a \<and> f (query_of a) = Some (r # rs)
        \<and> (print_all a \<or> print_verbose a \<or> print_url a) \<longrightarrow>
        status (main f c) = Exit 0)
   \<and> (parse_args c = Inl st \<and> time_arg c \<noteq> Raised \<and> lat_arg c \<noteq> Raised
        \<and> lon_arg c \<noteq> Raised \<and> radius_opt c \<noteq> Some Raised
        \<and> window_opt c \<noteq> Some Raised \<longrightarrow>
        status (main f c) = Exit 2)"
proof (intro conjI impI)
  assume h: "parse_args c = Inr a \<and> usage_error a"
  then have "usage_error a" by simp
  from main_body_usage [OF this, of f] have "status (main_body f a) = Exit 1"
    by (auto simp: usage_exit_fields)
  with h show "status (main f c) = Exit 1" by (simp add: main_parsed)
next
  assume "parse_args c = Inr a \<and> \<not> usage_error a \<and> f (query_of a) = None"
  then show "status (main f c) = Exit 0" by (simp add: main_parsed main_body_query)
next
  assume "parse_args c = Inr a \<and> \<not> usage_error a \<and> f (query_of a) = Some (r # rs)
      \<and> (print_all a \<or> print_verbose a \<or> print_url a)"
  then show "status (main f c) = Exit 0"
    by (simp add: main_parsed main_body_query present_exit_zero)
next
  assume h: "parse_args c = Inl st \<and> time_arg c \<noteq> Raised \<and> lat_arg c \<noteq> Raised
      \<and> lon_arg c \<noteq> Raised \<and> radius_opt c \<noteq> Some Raised \<and> window_opt c \<noteq> Some Raised"
  then have "st = Exit 2" by (blast intro: parse_args_no_raise)
  with h show "status (main f c) = Exit 2" by (simp add: parse_failure_no_query)
qed

theorem exit_codes_witness:
  "usage_error (documented_args\<lparr>print_all := True, print_url := True\<rparr>)
   \<and> status (main empty_catalog (documented_cmdline\<lparr>all_flag := True, url_flag := True\<rparr>))
       = Exit 1
   \<and> status (main empty_catalog documented_cmdline) = Exit 0
   \<and> status (main ridgecrest_catalog (documented_cmdline\<lparr>url_flag := True\<rparr>)) = Exit 0
   \<and> parse_args (documented_cmdline\<lparr>lon_arg := Rejected\<rparr>) = Inl (Exit 2)
   \<and> status (main empty_catalog (documented_cmdline\<lparr>lon_arg := Rejected\<rparr>)) = Exit 2"
proof -
  let ?c1 = "documented_cmdline\<lparr>all_flag := True, url_flag := True\<rparr>"
  let ?a1 = "documented_args\<lparr>print_all := True, print_url := True\<rparr>"
  let ?c3 = "documented_cmdline\<lparr>url_flag := True\<rparr>"
  let ?a3 = "documented_args\<lparr>print_url := True\<rparr>"
  let ?c4 = "documented_cmdline\<lparr>lon_arg := Rejected\<rparr>"
  have p1: "parse_args ?c1 = Inr ?a1"
    by (simp add: parse_args_def documented_cmdline_def documented_args_def loglevels_def)
  have u1: "usage_error ?a1"
    by (simp add: usage_error_def documented_args_def argsum_def)
  have n2: "empty_catalog (query_of documented_args) = None"
    by (simp add: empty_catalog_def)
  have p3: "parse_args ?c3 = Inr ?a3"
    by (simp add: parse_args_def documented_cmdline_def documented_args_def loglevels_def)
  have u3: "\<not> usage_error ?a3"
    by (simp add: usage_error_def documented_args_def argsum_def)
  have f3: "ridgecrest_catalog (query_of ?a3) = Some (ridgecrest # [])"
    by (simp add: ridgecrest_catalog_def)
  have m3: "print_all ?a3 \<or> print_verbose ?a3 \<or> print_url ?a3"
    by simp
  have p4: "parse_args ?c4 = Inl (Exit 2)"
    by (simp add: parse_args_def documented_cmdline_def)
  have r4: "time_arg ?c4 \<noteq> Raised \<and> lat_arg ?c4 \<noteq> Raised \<and> lon_arg ?c4 \<noteq> Raised
      \<and> radius_opt ?c4 \<noteq> Some Raised \<and> window_opt ?c4 \<noteq> Some Raised"
    by (simp add: documented_cmdline_def)
  from exit_codes [of ?c1 ?a1 empty_catalog] p1 u1
  have e1: "status (main empty_catalog ?c1) = Exit 1" by blast
  from exit_codes [of documented_cmdline documented_args empty_catalog]
    documented_parse documented_no_usage_error n2
  have e2: "status (main empty_catalog documented_cmdline) = Exit 0" by blast
  from exit_codes [of ?c3 ?a3 ridgecrest_catalog ridgecrest "[]"] p3 u3 f3 m3
  have e3: "status (main ridgecrest_catalog ?c3) = Exit 0" by blast
  from exit_codes [of ?c4 _ empty_catalog _ _ "Exit 2"] p4 r4
  have e4: "status (main empty_catalog ?c4) = Exit 2" by blast
  from u1 e1 e2 e3 p4 e4 show ?thesis by simp
qed

text \<open>
  C9 at the documented invocation, no mode flag given, with a catalog that knows one
  event: line 183 asks the id cell of the first row for an attribute \<^verbatim>\<open>values\<close>, the
  cell is a string, and the program ends in an AttributeError without printing the
  id.
\<close>

theorem default_mode_raises:
  "main ridgecrest_catalog documented_cmdline
     = \<lparr>stdout = [], logged = [], written = [],
        queries = [\<lparr>q_time = 1563187172, q_lat = 35.932, q_lon = - 117.715,
                    q_twindow = 16, q_radius = 100\<rparr>],
        status = Uncaught AttributeError\<rparr>"
  by (simp add: main_parsed [OF documented_parse] main_body_query documented_no_usage_error
      ridgecrest_catalog_def present_def documented_query)
     (simp add: documented_args_def)

end
